theory Spec2Isabelle
  imports Main "HOL-Library.Sublist"
begin

section \<open>HireEdgeAI: the resume builder's frontend and the engine it talks to\<close>

text \<open>
  The sources of the repository are the Next.js frontend: the shared types and the API
  client (\<^verbatim>\<open>types/index.ts\<close>), the scoring modal and the builder page
  (\<^verbatim>\<open>components/resume/ResumeScoringModal.tsx\<close>) and the sidebar
  (\<^verbatim>\<open>components/ui/Sidebar.tsx\<close>). The Python backend that keeps the sessions is not
  among them; where a statement is about the backend, the definition is marked as
  modelled from the specification.

  JavaScript strings are modelled as \<^typ>\<open>string\<close>: a character of the model is a UTF-16 code
  unit below 256 (\<open>CHR 0xA0\<close> is the no-break space U+00A0, \<open>CHR 0xC0\<close> the letter
  U+00C0), so a text of the model is a text of such code units. \<^verbatim>\<open>number\<close> values that
  the backend sends as integers are \<^typ>\<open>int\<close>.
\<close>

subsection \<open>JavaScript string operations used by the components\<close>

text \<open>The class \<^verbatim>\<open>\s\<close> of a regular expression, which is also what \<^verbatim>\<open>trim()\<close> strips:
  ECMAScript's WhiteSpace and LineTerminator. Below 256 these are tab, line feed, vertical
  tab, form feed, carriage return, space and the no-break space U+00A0.\<close>

definition is_space :: "char \<Rightarrow> bool" where
  "is_space c =
     (c \<in> set [CHR 0x09, CHR 0x0A, CHR 0x0B, CHR 0x0C, CHR 0x0D, CHR '' '', CHR 0xA0])"

definition trimStart :: "string \<Rightarrow> string" where
  "trimStart s = dropWhile is_space s"

definition trimEnd :: "string \<Rightarrow> string" where
  "trimEnd s = rev (dropWhile is_space (rev s))"

text \<open>\<^verbatim>\<open>s.trim()\<close>\<close>

definition trim :: "string \<Rightarrow> string" where
  "trim s = trimEnd (trimStart s)"

text \<open>\<^verbatim>\<open>s.split(/\s+/)\<close>: the pieces between maximal runs of white space. The empty string
  gives one empty piece; a string that starts or ends with white space gives an empty first
  or last piece.\<close>

function split_ws :: "string \<Rightarrow> string list" where
  "split_ws s =
     (let piece = takeWhile (\<lambda>c. \<not> is_space c) s;
          rest = dropWhile (\<lambda>c. \<not> is_space c) s
      in if rest = [] then [piece] else piece # split_ws (dropWhile is_space rest))"
  by pat_completeness auto
termination
proof (relation "measure length")
  fix s :: string and piece rest :: string
  assume r: "rest = dropWhile (\<lambda>c. \<not> is_space c) s" and ne: "rest \<noteq> []"
  from ne obtain c cs where rc: "rest = c # cs" by (cases rest) auto
  have eq: "dropWhile (\<lambda>c. \<not> is_space c) s = c # cs" using r rc by simp
  have "\<not> \<not> is_space (hd (dropWhile (\<lambda>c. \<not> is_space c) s))"
    by (rule hd_dropWhile) (simp add: eq)
  then have "is_space c" by (simp add: eq)
  then have "length (dropWhile is_space rest) \<le> length cs"
    by (simp add: rc length_dropWhile_le)
  moreover have "length rest \<le> length s" by (simp add: r length_dropWhile_le)
  ultimately show "(dropWhile is_space rest, s) \<in> measure length" by (simp add: rc)
qed simp

declare split_ws.simps [simp del]

text \<open>\<^verbatim>\<open>s.trim().split(/\s+/).filter(w => w).length\<close>: the empty string is the only falsy
  string, so the filter keeps the non-empty pieces.\<close>

definition countWords :: "string \<Rightarrow> nat" where
  "countWords s = length (filter (\<lambda>w. w \<noteq> []) (split_ws (trim s)))"

text \<open>\<^verbatim>\<open>s.toLowerCase()\<close>. Below 256 the upper-case letters are A to Z and U+00C0 to
  U+00DE without the multiplication sign U+00D7; the lower-case letter of each is 32 code
  units above it.\<close>

definition upper_case_letters :: string where
  "upper_case_letters =
     ''ABCDEFGHIJKLMNOPQRSTUVWXYZ'' @
     [CHR 0xC0, CHR 0xC1, CHR 0xC2, CHR 0xC3, CHR 0xC4, CHR 0xC5, CHR 0xC6, CHR 0xC7,
      CHR 0xC8, CHR 0xC9, CHR 0xCA, CHR 0xCB, CHR 0xCC, CHR 0xCD, CHR 0xCE, CHR 0xCF,
      CHR 0xD0, CHR 0xD1, CHR 0xD2, CHR 0xD3, CHR 0xD4, CHR 0xD5, CHR 0xD6,
      CHR 0xD8, CHR 0xD9, CHR 0xDA, CHR 0xDB, CHR 0xDC, CHR 0xDD, CHR 0xDE]"

definition lower_case_letters :: string where
  "lower_case_letters =
     ''abcdefghijklmnopqrstuvwxyz'' @
     [CHR 0xE0, CHR 0xE1, CHR 0xE2, CHR 0xE3, CHR 0xE4, CHR 0xE5, CHR 0xE6, CHR 0xE7,
      CHR 0xE8, CHR 0xE9, CHR 0xEA, CHR 0xEB, CHR 0xEC, CHR 0xED, CHR 0xEE, CHR 0xEF,
      CHR 0xF0, CHR 0xF1, CHR 0xF2, CHR 0xF3, CHR 0xF4, CHR 0xF5, CHR 0xF6,
      CHR 0xF8, CHR 0xF9, CHR 0xFA, CHR 0xFB, CHR 0xFC, CHR 0xFD, CHR 0xFE]"

definition toLowerCase_char :: "char \<Rightarrow> char" where
  "toLowerCase_char c =
     (case map_of (zip upper_case_letters lower_case_letters) c of
        Some l \<Rightarrow> l
      | None \<Rightarrow> c)"

definition toLowerCase :: "string \<Rightarrow> string" where
  "toLowerCase s = map toLowerCase_char s"

text \<open>\<^verbatim>\<open>s.includes(sub)\<close>: \<open>sub\<close> occurs in \<open>s\<close> as a contiguous substring.\<close>

fun includes_str :: "string \<Rightarrow> string \<Rightarrow> bool" where
  "includes_str [] sub = (sub = [])"
| "includes_str (c # cs) sub = (prefix sub (c # cs) \<or> includes_str cs sub)"

text \<open>\<^verbatim>\<open>xs.join(sep)\<close>\<close>

fun join :: "string \<Rightarrow> string list \<Rightarrow> string" where
  "join sep [] = []"
| "join sep [x] = x"
| "join sep (x # y # ys) = x @ sep @ join sep (y # ys)"

text \<open>\<^verbatim>\<open>xs.slice(0, n)\<close> for a non-negative literal \<open>n\<close>.\<close>

definition slice0 :: "nat \<Rightarrow> 'a list \<Rightarrow> 'a list" where
  "slice0 n xs = take n xs"

subsection \<open>The shared types (types/index.ts)\<close>

text \<open>An optional field (\<^verbatim>\<open>type?: string\<close>) is an \<open>option\<close>. The field \<^verbatim>\<open>type\<close> is written
  \<open>type'\<close>.\<close>

record Section =
  name :: string
  content :: string
  type' :: "string option"
  start_line :: "int option"
  end_line :: "int option"
  preview :: "string option"

text \<open>The three members of \<^verbatim>\<open>ResumeScores\<close>. The fields \<^verbatim>\<open>score\<close>, \<^verbatim>\<open>rating\<close>,
  \<^verbatim>\<open>summary\<close> and \<^verbatim>\<open>recommendations\<close> occur in several of them; here each carries the
  member's prefix (\<open>u_\<close> for \<^verbatim>\<open>ats_universal\<close>, \<open>h_\<close> for \<^verbatim>\<open>hbps\<close>, \<open>jd_\<close> for
  \<^verbatim>\<open>ats_jd\<close>).\<close>

record ats_universal =
  u_score :: int
  u_rating :: string
  u_summary :: string
  section_score :: int
  metrics_score :: int
  action_verbs_score :: int
  structure_score :: int
  design_score :: int
  metrics_count :: int
  action_verbs_count :: int
  word_count :: int
  found_sections :: "string list"
  missing_sections :: "string list"
  design_issues :: "string list"
  u_recommendations :: "string list"

record hbps =
  h_score :: int
  h_rating :: string
  h_summary :: string
  first_impression_score :: int
  scannability_score :: int
  impact_numbers_score :: int
  credibility_score :: int
  clarity_score :: int
  what_recruiter_sees :: "string list"
  h_recommendations :: "string list"

record ats_jd =
  jd_score :: int
  jd_rating :: string
  jd_summary :: string
  matched_keywords :: "string list"
  missing_keywords :: "string list"

record ResumeScores =
  ats_universal :: "ats_universal option"
  hbps :: "hbps option"
  ats_jd :: "ats_jd option"

subsection \<open>The scoring modal (ResumeScoringModal)\<close>

definition getScoreColor :: "int \<Rightarrow> string" where
  "getScoreColor score =
     (if score \<ge> 85 then ''text-green-600''
      else if score \<ge> 70 then ''text-green-500''
      else if score \<ge> 55 then ''text-yellow-500''
      else ''text-red-500'')"

text \<open>The four emoji that \<^verbatim>\<open>getRatingEmoji\<close> returns: U+1F31F (glowing star), U+2705 (check
  mark button), U+26A0 U+FE0F (warning) and U+274C (cross mark).\<close>

datatype emoji = GlowingStar | CheckMark | Warning | CrossMark

definition getRatingEmoji :: "string \<Rightarrow> emoji" where
  "getRatingEmoji rating =
     (let ratingLower = toLowerCase rating in
      if includes_str ratingLower ''excellent'' then GlowingStar
      else if includes_str ratingLower ''good'' then CheckMark
      else if includes_str ratingLower ''fair'' then Warning
      else CrossMark)"




record jd_view =
  jv_score :: int
  jv_color :: string
  jv_emoji :: emoji
  jv_rating :: string
  jv_summary :: string
  jv_matched :: "string list option"
  jv_missing :: "string list option"

definition renderATSJD :: "ResumeScores option \<Rightarrow> jd_view option" where
  "renderATSJD scores =
     (case scores of
        None \<Rightarrow> None
      | Some sc \<Rightarrow>
          (case ats_jd sc of
             None \<Rightarrow> None
           | Some atsJd \<Rightarrow> Some
               \<lparr> jv_score = jd_score atsJd,
                 jv_color = getScoreColor (jd_score atsJd),
                 jv_emoji = getRatingEmoji (jd_rating atsJd),
                 jv_rating = jd_rating atsJd,
                 jv_summary = jd_summary atsJd,
                 jv_matched =
                   (if length (matched_keywords atsJd) > 0
                    then Some (slice0 15 (matched_keywords atsJd)) else None),
                 jv_missing =
                   (if length (missing_keywords atsJd) > 0
                    then Some (slice0 10 (missing_keywords atsJd)) else None) \<rparr>))"

text \<open>The keyword chips a block shows: none when the block is not rendered.\<close>

definition chips :: "string list option \<Rightarrow> string list" where
  "chips block = (case block of None \<Rightarrow> [] | Some ks \<Rightarrow> ks)"

text \<open>The tabs of the modal, each an id and a label, pushed in this order.\<close>

definition tabs :: "ResumeScores option \<Rightarrow> (string \<times> string) list" where
  "tabs scores =
     (case scores of
        None \<Rightarrow> []
      | Some sc \<Rightarrow>
          (if ats_universal sc \<noteq> None then [(''ats'', ''ATS Universal'')] else []) @
          (if hbps sc \<noteq> None then [(''hbps'', ''HBPS'')] else []) @
          (if ats_jd sc \<noteq> None then [(''ats_jd'', ''ATS (with JD)'')] else []))"


text \<open>Sample results, which differ in \<^verbatim>\<open>structure_score\<close> only.\<close>

definition sample_universal :: "int \<Rightarrow> ats_universal" where
  "sample_universal st =
     \<lparr> u_score = 72, u_rating = ''Good'', u_summary = ''Solid resume'',
       section_score = 80, metrics_score = 60, action_verbs_score = 70,
       structure_score = st, design_score = 90,
       metrics_count = 6, action_verbs_count = 9, word_count = 410,
       found_sections = [''Experience'', ''Education''], missing_sections = [''Summary''],
       design_issues = [], u_recommendations = [''Add a summary''] \<rparr>"

subsection \<open>The builder page (ResumeBuilderPage): state and effects\<close>

text \<open>A toast is \<^verbatim>\<open>toast.error(m)\<close>, \<^verbatim>\<open>toast.success(m)\<close>, the plain \<^verbatim>\<open>toast(m)\<close>, or the
  plain toast with the warning icon.\<close>

datatype toast = ToastError string | ToastSuccess string | ToastPlain string | ToastWarning string

text \<open>The requests of the API client (\<^verbatim>\<open>lib/api/resume-builder\<close>), each with the session id it
  is sent for; an upload also names the file, and setting the job description carries the
  text.\<close>

datatype api_call =
    CreateSession
  | GetSessionState string
  | CompilePDF string
  | GetPDF string
  | GetSections string
  | UploadFile string string
  | DownloadLaTeX string
  | GetJobDescription string
  | SetJobDescription string string
  | ClearJobDescription string
  | CalculateScores string

text \<open>A rejected request: \<^verbatim>\<open>error.response?.data?.detail\<close> and \<^verbatim>\<open>error.message\<close>, each of
  which may be missing. An awaited call either rejects (\<open>Inl\<close>) or resolves to the
  response's data (\<open>Inr\<close>); the handlers below take what each of their awaited calls
  resolves to as an argument, in the order of the calls.\<close>

record api_error =
  err_detail :: "string option"
  err_message :: "string option"

type_synonym 'a response = "api_error + 'a"

record created = session_id :: string

record compile_result =
  cr_success :: bool
  cr_error :: "string option"

record sections_response = resp_sections :: "Section list option"

record jd_response = job_description :: "string option"

record upload_result = warnings :: "string list option"

text \<open>The state of the page: its \<^verbatim>\<open>useState\<close> variables, and the two effects a handler has
  beyond them, the toasts shown and the requests sent, both in order.\<close>

record page =
  sessionId :: "string option"
  pdfUrl :: "string option"
  isLoading :: bool
  isCompiling :: bool
  chatMessage :: string
  scores :: "ResumeScores option"
  isScoreModalOpen :: bool
  isLoadingScores :: bool
  sections :: "Section list"
  isSidebarOpen :: bool
  canUndo :: bool
  canRedo :: bool
  versionInfo :: string
  jobDescription :: string
  jobDescriptionInput :: string
  toasts :: "toast list"
  requests :: "api_call list"

definition initial_page :: page where
  "initial_page =
     \<lparr> sessionId = None, pdfUrl = None, isLoading = False, isCompiling = False,
       chatMessage = [], scores = None, isScoreModalOpen = False, isLoadingScores = False,
       sections = [], isSidebarOpen = False, canUndo = False, canRedo = False,
       versionInfo = [], jobDescription = [], jobDescriptionInput = [],
       toasts = [], requests = [] \<rparr>"

definition toast_show :: "toast \<Rightarrow> page \<Rightarrow> page" where
  "toast_show t p = p\<lparr>toasts := toasts p @ [t]\<rparr>"

definition request :: "api_call \<Rightarrow> page \<Rightarrow> page" where
  "request c p = p\<lparr>requests := requests p @ [c]\<rparr>"

text \<open>A string that may be \<^verbatim>\<open>null\<close> or \<^verbatim>\<open>undefined\<close> is truthy when it is there and not
  empty.\<close>

definition truthy :: "string option \<Rightarrow> bool" where
  "truthy v = (case v of None \<Rightarrow> False | Some s \<Rightarrow> s \<noteq> [])"

text \<open>\<^verbatim>\<open>error.response?.data?.detail || error.message || dflt\<close>\<close>

definition error_text :: "api_error \<Rightarrow> string \<Rightarrow> string" where
  "error_text e dflt =
     (if truthy (err_detail e) then the (err_detail e)
      else if truthy (err_message e) then the (err_message e)
      else dflt)"

text \<open>\<^verbatim>\<open>URL.createObjectURL(blob)\<close>; a blob is modelled by its content.\<close>

definition createObjectURL :: "string \<Rightarrow> string" where
  "createObjectURL blob = ''blob:'' @ blob"

definition loadJobDescription :: "string \<Rightarrow> page \<Rightarrow> jd_response response \<Rightarrow> page" where
  "loadJobDescription sid p response =
     (let p1 = request (GetJobDescription sid) p in
      case response of
        Inl e \<Rightarrow> p1
      | Inr r \<Rightarrow>
          if truthy (job_description r)
          then p1\<lparr>jobDescription := the (job_description r),
                  jobDescriptionInput := the (job_description r)\<rparr>
          else p1)"

definition handleSaveJobDescription ::
  "page \<Rightarrow> unit response \<Rightarrow> jd_response response \<Rightarrow> page" where
  "handleSaveJobDescription p result verify =
     (if \<not> truthy (sessionId p) then toast_show (ToastError ''Session not initialized'') p
      else
        let sid = the (sessionId p);
            wordCount = countWords (jobDescriptionInput p)
        in
        if wordCount > 1000
        then toast_show (ToastError ''Job description must be 1000 words or less'') p
        else
          let jdToSave = trim (jobDescriptionInput p) in
          if jdToSave = [] then toast_show (ToastError ''Job description cannot be empty'') p
          else
            let p1 = request (SetJobDescription sid jdToSave) p in
            (case result of
               Inl e \<Rightarrow>
                 toast_show
                   (ToastError (''Failed to save job description: '' @ error_text e ''Unknown error''))
                   p1
             | Inr _ \<Rightarrow>
                 let p2 = request (GetJobDescription sid) p1 in
                 (case verify of
                    Inl e \<Rightarrow>
                      toast_show
                        (ToastError
                           (''Failed to save job description: '' @ error_text e ''Unknown error''))
                        p2
                  | Inr v \<Rightarrow>
                      if truthy (job_description v) \<and> trim (the (job_description v)) \<noteq> []
                      then
                        toast_show (ToastSuccess ''Job description saved successfully'')
                          (p2\<lparr>jobDescription := the (job_description v),
                               jobDescriptionInput := the (job_description v)\<rparr>)
                      else
                        toast_show
                          (ToastError
                             ''Job description save verification failed - please try again'')
                          p2)))"

definition handleClearJobDescription :: "page \<Rightarrow> unit response \<Rightarrow> page" where
  "handleClearJobDescription p response =
     (if \<not> truthy (sessionId p) then p
      else
        let p1 = request (ClearJobDescription (the (sessionId p))) p in
        case response of
          Inl e \<Rightarrow> toast_show (ToastError ''Failed to clear job description'') p1
        | Inr _ \<Rightarrow>
            toast_show (ToastSuccess ''Job description cleared'')
              (p1\<lparr>jobDescription := [], jobDescriptionInput := []\<rparr>))"

definition loadSections :: "string \<Rightarrow> page \<Rightarrow> sections_response response \<Rightarrow> page" where
  "loadSections sid p response =
     (let p1 = request (GetSections sid) p in
      case response of
        Inl e \<Rightarrow> p1
      | Inr r \<Rightarrow>
          (case resp_sections r of
             None \<Rightarrow> p1
           | Some secs \<Rightarrow> p1\<lparr>sections := secs\<rparr>))"

text \<open>\<^verbatim>\<open>compileAndUpdate\<close>: an unsuccessful compile result throws
  \<^verbatim>\<open>new Error(compileResult.error || 'Compilation failed')\<close> into the same \<^verbatim>\<open>catch\<close> as a
  rejected request; the \<^verbatim>\<open>finally\<close> block resets \<^verbatim>\<open>isCompiling\<close>.\<close>

definition compile_failed :: "api_error \<Rightarrow> page \<Rightarrow> page" where
  "compile_failed e p =
     toast_show (ToastError (''Compilation failed: '' @ error_text e ''Failed to compile PDF'')) p"

definition compileAndUpdate ::
  "string \<Rightarrow> page \<Rightarrow> compile_result response \<Rightarrow> string response \<Rightarrow> page" where
  "compileAndUpdate sid p compileResult pdfBlob =
     (let p1 = request (CompilePDF sid) (p\<lparr>isCompiling := True\<rparr>);
          p2 =
            (case compileResult of
               Inl e \<Rightarrow> compile_failed e p1
             | Inr cr \<Rightarrow>
                 if \<not> cr_success cr
                 then compile_failed
                        \<lparr> err_detail = None,
                          err_message =
                            Some (if truthy (cr_error cr) then the (cr_error cr)
                                  else ''Compilation failed'') \<rparr>
                        p1
                 else
                   let p' = request (GetPDF sid) p1 in
                   (case pdfBlob of
                      Inl e \<Rightarrow> compile_failed e p'
                    | Inr blob \<Rightarrow> p'\<lparr>pdfUrl := Some (createObjectURL blob)\<rparr>))
      in p2\<lparr>isCompiling := False\<rparr>)"

definition initSession ::
  "page \<Rightarrow> created response \<Rightarrow> compile_result response \<Rightarrow> string response \<Rightarrow>
   sections_response response \<Rightarrow> jd_response response \<Rightarrow> page" where
  "initSession p response compileResult pdfBlob sectionsResponse jdResponse =
     (let p1 = request CreateSession p in
      case response of
        Inl e \<Rightarrow> toast_show (ToastError ''Failed to initialize resume builder'') p1
      | Inr r \<Rightarrow>
          let p2 = p1\<lparr>sessionId := Some (session_id r)\<rparr>;
              p3 = compileAndUpdate (session_id r) p2 compileResult pdfBlob;
              p4 = loadSections (session_id r) p3 sectionsResponse
          in loadJobDescription (session_id r) p4 jdResponse)"

definition handleCheckScores ::
  "page \<Rightarrow> jd_response response \<Rightarrow> ResumeScores response \<Rightarrow> page" where
  "handleCheckScores p jdCheck scoreData =
     (if \<not> truthy (sessionId p) then p
      else
        let sid = the (sessionId p);
            p1 = request (GetJobDescription sid)
                   (p\<lparr>isLoadingScores := True, isScoreModalOpen := True\<rparr>);
            p2 =
              (case jdCheck of
                 Inl e \<Rightarrow> toast_show (ToastError ''Failed to calculate scores'') p1
               | Inr _ \<Rightarrow>
                   let p' = request (CalculateScores sid) p1 in
                   (case scoreData of
                      Inl e \<Rightarrow> toast_show (ToastError ''Failed to calculate scores'') p'
                    | Inr sd \<Rightarrow> p'\<lparr>scores := Some sd\<rparr>))
        in p2\<lparr>isLoadingScores := False\<rparr>)"

definition handleDownload :: "page \<Rightarrow> string response \<Rightarrow> page" where
  "handleDownload p pdfBlob =
     (if \<not> truthy (sessionId p) then p
      else
        let p1 = request (GetPDF (the (sessionId p))) p in
        case pdfBlob of
          Inl e \<Rightarrow> toast_show (ToastError ''Failed to download PDF'') p1
        | Inr _ \<Rightarrow> toast_show (ToastSuccess ''Resume downloaded'') p1)"

definition handleDownloadLaTeX :: "page \<Rightarrow> string response \<Rightarrow> page" where
  "handleDownloadLaTeX p latexBlob =
     (if \<not> truthy (sessionId p) then p
      else
        let p1 = request (DownloadLaTeX (the (sessionId p))) p in
        case latexBlob of
          Inl e \<Rightarrow> toast_show (ToastError ''Failed to download LaTeX'') p1
        | Inr _ \<Rightarrow> toast_show (ToastSuccess ''LaTeX downloaded'') p1)"

definition handleFileUpload ::
  "page \<Rightarrow> string \<Rightarrow> upload_result response \<Rightarrow> sections_response response \<Rightarrow>
   compile_result response \<Rightarrow> string response \<Rightarrow> page" where
  "handleFileUpload p fileName result sectionsResponse compileResult pdfBlob =
     (if \<not> truthy (sessionId p) then toast_show (ToastError ''Session not initialized'') p
      else
        let sid = the (sessionId p);
            p1 = request (UploadFile sid fileName) p
        in
        case result of
          Inl e \<Rightarrow>
            toast_show (ToastError (''Upload failed: '' @ error_text e ''Failed to upload file'')) p1
        | Inr r \<Rightarrow>
            let p2 = foldl (\<lambda>q warning. toast_show (ToastWarning warning) q) p1
                       (case warnings r of None \<Rightarrow> [] | Some ws \<Rightarrow> ws);
                p3 = toast_show (ToastSuccess (''File '' @ fileName @ '' uploaded successfully'')) p2;
                p4 = p3\<lparr>isSidebarOpen := False\<rparr>;
                p5 = loadSections sid p4 sectionsResponse
            in compileAndUpdate sid p5 compileResult pdfBlob)"

text \<open>The effect on \<^verbatim>\<open>sessionId\<close> that loads the session state: it sends the request and
  updates nothing.\<close>

definition loadSessionState :: "page \<Rightarrow> unit response \<Rightarrow> page" where
  "loadSessionState p state =
     (if \<not> truthy (sessionId p) then p
      else request (GetSessionState (the (sessionId p))) p)"

text \<open>The two handlers the page passes to the sidebar as \<^verbatim>\<open>onUndo\<close> and \<^verbatim>\<open>onRedo\<close>.\<close>

definition onUndo :: "page \<Rightarrow> page" where
  "onUndo p = toast_show (ToastPlain ''Undo not yet implemented'') p"

definition onRedo :: "page \<Rightarrow> page" where
  "onRedo p = toast_show (ToastPlain ''Redo not yet implemented'') p"

subsection \<open>The sidebar (Sidebar)\<close>

text \<open>The properties the page passes, with the defaults of the component
  (\<^verbatim>\<open>canUndo = false\<close>, \<^verbatim>\<open>canRedo = false\<close>) already applied, and what the component shows
  of them: nothing when it is closed, else the two history buttons, each with its
  \<^verbatim>\<open>disabled\<close> attribute, and the version line when \<^verbatim>\<open>versionInfo\<close> is truthy.\<close>

record sidebar_props =
  sp_isOpen :: bool
  sp_canUndo :: bool
  sp_canRedo :: bool
  sp_versionInfo :: string

record sidebar_view =
  undo_disabled :: bool
  redo_disabled :: bool
  version_line :: "string option"

definition Sidebar :: "sidebar_props \<Rightarrow> sidebar_view option" where
  "Sidebar props =
     (if \<not> sp_isOpen props then None
      else Some
        \<lparr> undo_disabled = (\<not> sp_canUndo props),
          redo_disabled = (\<not> sp_canRedo props),
          version_line =
            (if sp_versionInfo props \<noteq> [] then Some (sp_versionInfo props) else None) \<rparr>)"

definition sidebar_of :: "page \<Rightarrow> sidebar_props" where
  "sidebar_of p =
     \<lparr> sp_isOpen = isSidebarOpen p, sp_canUndo = canUndo p, sp_canRedo = canRedo p,
       sp_versionInfo = versionInfo p \<rparr>"

text \<open>A click on a history button: a button that is not rendered or is disabled does not
  call its handler.\<close>

definition click_undo :: "page \<Rightarrow> page" where
  "click_undo p =
     (case Sidebar (sidebar_of p) of
        None \<Rightarrow> p
      | Some v \<Rightarrow> if undo_disabled v then p else onUndo p)"

definition click_redo :: "page \<Rightarrow> page" where
  "click_redo p =
     (case Sidebar (sidebar_of p) of
        None \<Rightarrow> p
      | Some v \<Rightarrow> if redo_disabled v then p else onRedo p)"

subsection \<open>The page as a transition system\<close>

text \<open>Everything that can happen to the page: the mount effect, the effect on the session
  id, and what the user does. An event that awaits requests carries what they resolve to.
  The clear button is rendered only while a job description is stored, the file input only
  in the open sidebar, and a section button only for the first eight sections.\<close>

datatype event =
    Mount "created response" "compile_result response" "string response"
      "sections_response response" "jd_response response"
  | SessionStateEffect "unit response"
  | SaveJobDescriptionClick "unit response" "jd_response response"
  | ClearJobDescriptionClick "unit response"
  | CheckScoresClick "jd_response response" "ResumeScores response"
  | DownloadClick "string response"
  | DownloadLaTeXClick "string response"
  | FileChosen string "upload_result response" "sections_response response"
      "compile_result response" "string response"
  | OpenSidebar
  | CloseSidebar
  | CloseScoreModal
  | JobDescriptionInputChange string
  | ChatMessageChange string
  | FullResumeClick
  | SectionClick nat
  | UndoClick
  | RedoClick

fun step :: "page \<Rightarrow> event \<Rightarrow> page" where
  "step p (Mount r c b s j) = initSession p r c b s j"
| "step p (SessionStateEffect r) = loadSessionState p r"
| "step p (SaveJobDescriptionClick r v) = handleSaveJobDescription p r v"
| "step p (ClearJobDescriptionClick r) =
     (if jobDescription p \<noteq> [] then handleClearJobDescription p r else p)"
| "step p (CheckScoresClick j s) = handleCheckScores p j s"
| "step p (DownloadClick b) = handleDownload p b"
| "step p (DownloadLaTeXClick b) =
     (if isSidebarOpen p then handleDownloadLaTeX p b else p)"
| "step p (FileChosen f r s c b) =
     (if isSidebarOpen p then handleFileUpload p f r s c b else p)"
| "step p OpenSidebar = p\<lparr>isSidebarOpen := True\<rparr>"
| "step p CloseSidebar = p\<lparr>isSidebarOpen := False\<rparr>"
| "step p CloseScoreModal = p\<lparr>isScoreModalOpen := False\<rparr>"
| "step p (JobDescriptionInputChange t) = p\<lparr>jobDescriptionInput := t\<rparr>"
| "step p (ChatMessageChange t) = p\<lparr>chatMessage := t\<rparr>"
| "step p FullResumeClick = p\<lparr>chatMessage := ''@Full Resume: ''\<rparr>"
| "step p (SectionClick i) =
     (if i < length (slice0 8 (sections p))
      then p\<lparr>chatMessage := ''@'' @ name (slice0 8 (sections p) ! i) @ '': ''\<rparr>
      else p)"
| "step p UndoClick = click_undo p"
| "step p RedoClick = click_redo p"

definition run :: "page \<Rightarrow> event list \<Rightarrow> page" where
  "run p evs = foldl step p evs"

text \<open>A text of \<open>n + 1\<close> one-letter words, for the examples.\<close>

definition words_text :: "nat \<Rightarrow> string" where
  "words_text n = concat (replicate n ''a '') @ ''a''"

section \<open>The engine behind the API, modelled from the specification\<close>

text \<open>The backend is not among the sources. The definitions of this section follow the
  specification's words; each says what it stands for.\<close>

datatype engine_error =
    NotFound | NoHistory | SectionNotFound | ValidationError | InvalidEditResult

subsection \<open>VersionHistory\<close>

text \<open>Modelled from the spec: the VersionHistory of a session (section 4.2), which is backend
  code. Two stacks of document snapshots, the top of each at the head of its list, and the
  current snapshot.\<close>

record version_history =
  past :: "string list"
  current :: string
  future :: "string list"

text \<open>Modelled from the spec: \<^verbatim>\<open>record(newDocument)\<close> "pushes current document onto past,
  sets current = newDocument, clears future"; with the capacity bound \<open>N\<close>, "when record
  would push past beyond N entries, the oldest entry is dropped silently".\<close>

definition vh_record :: "nat \<Rightarrow> version_history \<Rightarrow> string \<Rightarrow> version_history" where
  "vh_record N h newDocument =
     \<lparr> past = take N (current h # past h), current = newDocument, future = [] \<rparr>"

text \<open>Modelled from the spec: \<^verbatim>\<open>undo()\<close> "fails with NoHistory if past is empty; else pushes
  current onto future, pops top of past into current, returns the restored document".\<close>

definition vh_undo :: "version_history \<Rightarrow> engine_error + (version_history \<times> string)" where
  "vh_undo h =
     (case past h of
        [] \<Rightarrow> Inl NoHistory
      | d # ds \<Rightarrow> Inr (\<lparr> past = ds, current = d, future = current h # future h \<rparr>, d))"

text \<open>Modelled from the spec: \<^verbatim>\<open>redo()\<close> "fails with NoHistory if future is empty; symmetric
  to undo".\<close>

definition vh_redo :: "version_history \<Rightarrow> engine_error + (version_history \<times> string)" where
  "vh_redo h =
     (case future h of
        [] \<Rightarrow> Inl NoHistory
      | d # ds \<Rightarrow> Inr (\<lparr> past = current h # past h, current = d, future = ds \<rparr>, d))"

text \<open>Modelled from the spec: the queries \<^verbatim>\<open>canUndo()\<close> and \<^verbatim>\<open>canRedo()\<close>.\<close>

definition vh_canUndo :: "version_history \<Rightarrow> bool" where
  "vh_canUndo h = (past h \<noteq> [])"

definition vh_canRedo :: "version_history \<Rightarrow> bool" where
  "vh_canRedo h = (future h \<noteq> [])"

subsection \<open>Sessions and scoring\<close>

text \<open>Modelled from the spec: the part of a Session (section 3) that scoring reads, its
  current document and its optional job description.\<close>

record session =
  s_document :: string
  s_jobDescription :: "string option"

text \<open>Modelled from the spec: \<^verbatim>\<open>setJobDescription(id, text)\<close> "fails ValidationError if word
  count > 1000", and \<^verbatim>\<open>clearJobDescription(id)\<close>. The words are counted as the page counts
  them.\<close>

definition setJobDescription :: "session \<Rightarrow> string \<Rightarrow> engine_error + session" where
  "setJobDescription s text =
     (if countWords text > 1000 then Inl ValidationError
      else Inr (s\<lparr>s_jobDescription := Some text\<rparr>))"

definition clearJobDescription :: "session \<Rightarrow> session" where
  "clearJobDescription s = s\<lparr>s_jobDescription := None\<rparr>"

text \<open>The three scorers are parameters: the specification gives their lexicons and weights
  by example only.\<close>

record scorers =
  universalATS :: "string \<Rightarrow> ats_universal"
  humanScan :: "string \<Rightarrow> hbps"
  jdMatch :: "string \<Rightarrow> string \<Rightarrow> ats_jd"

text \<open>Modelled from the spec: \<^verbatim>\<open>score(id) -> {universal, humanScan, jdMatch?}\<close> of the
  backend. The JDMatch scorer is "only computed when a job description is present;
  otherwise this scorer is absent from the result, not zero"; the API client's comment
  says the same ("Backend always returns ats_universal and hbps, and ats_jd if
  job_description is set in session").\<close>

definition score :: "scorers \<Rightarrow> session \<Rightarrow> ResumeScores" where
  "score sc s =
     \<lparr> ats_universal = Some (universalATS sc (s_document s)),
       hbps = Some (humanScan sc (s_document s)),
       ats_jd =
         (case s_jobDescription s of
            None \<Rightarrow> None
          | Some jd \<Rightarrow> Some (jdMatch sc (s_document s) jd)) \<rparr>"

subsection \<open>SectionParser\<close>

text \<open>Modelled from the spec: a parsed section (section 3), with its name, its content and
  its position in the document as a range of lines, from \<open>ps_start\<close> up to but not
  including \<open>ps_end\<close>, counted from 0.\<close>

record parsed_section =
  ps_name :: string
  ps_content :: string
  ps_start :: nat
  ps_end :: nat

text \<open>The lines of a text, split at line feeds, and the text of a list of lines.\<close>

fun split_lines :: "string \<Rightarrow> string list" where
  "split_lines [] = [[]]"
| "split_lines (c # cs) =
     (if c = CHR 0x0A then [] # split_lines cs
      else (case split_lines cs of
              [] \<Rightarrow> [[c]]
            | l # ls \<Rightarrow> (c # l) # ls))"

definition join_lines :: "string list \<Rightarrow> string" where
  "join_lines ls = join [CHR 0x0A] ls"

text \<open>Modelled from the spec: \<^verbatim>\<open>parse(source)\<close> (section 4.1), which is backend code. The
  specification leaves the markup's "section command" pattern open, so the recogniser is a
  parameter: \<open>heading l\<close> is the structural level and the name argument of the line \<open>l\<close>
  when it is a heading (a smaller number is a higher level). "The section name is the
  command's argument, trimmed; section content runs from that heading (inclusive) to the
  line before the next heading of equal or higher structural level, or end of document. A
  document with no recognizable structural markers yields a single section named
  Full Document spanning the entire source."\<close>

definition heading_indices :: "(string \<Rightarrow> (nat \<times> string) option) \<Rightarrow> string list \<Rightarrow> nat list" where
  "heading_indices heading ls = filter (\<lambda>i. heading (ls ! i) \<noteq> None) [0..<length ls]"

definition section_end :: "(string \<Rightarrow> (nat \<times> string) option) \<Rightarrow> string list \<Rightarrow> nat \<Rightarrow> nat" where
  "section_end heading ls i =
     (case filter (\<lambda>j. i < j \<and> fst (the (heading (ls ! j))) \<le> fst (the (heading (ls ! i))))
             (heading_indices heading ls) of
        [] \<Rightarrow> length ls
      | j # _ \<Rightarrow> j)"

definition section_at :: "(string \<Rightarrow> (nat \<times> string) option) \<Rightarrow> string list \<Rightarrow> nat \<Rightarrow> parsed_section" where
  "section_at heading ls i =
     \<lparr> ps_name = trim (snd (the (heading (ls ! i)))),
       ps_content = join_lines (take (section_end heading ls i - i) (drop i ls)),
       ps_start = i,
       ps_end = section_end heading ls i \<rparr>"

definition parse :: "(string \<Rightarrow> (nat \<times> string) option) \<Rightarrow> string \<Rightarrow> parsed_section list" where
  "parse heading source =
     (let ls = split_lines source in
      if heading_indices heading ls = []
      then [\<lparr> ps_name = ''Full Document'', ps_content = source,
              ps_start = 0, ps_end = length ls \<rparr>]
      else map (section_at heading ls) (heading_indices heading ls))"

text \<open>A recogniser for the examples: a line \<^verbatim>\<open>\section{Name}\<close> is a heading of level 1.\<close>

definition latex_heading :: "string \<Rightarrow> (nat \<times> string) option" where
  "latex_heading l =
     (if prefix [CHR 0x5C, CHR ''s'', CHR ''e'', CHR ''c'', CHR ''t'', CHR ''i'', CHR ''o'',
                 CHR ''n'', CHR 0x7B] l \<and> l \<noteq> [] \<and> last l = CHR 0x7D
      then Some (1, butlast (drop 9 l)) else None)"

text \<open>Scorers for the examples: each returns a fixed result.\<close>

definition sample_scorers :: scorers where
  "sample_scorers =
     \<lparr> universalATS = (\<lambda>d. sample_universal 40),
       humanScan = (\<lambda>d.
         \<lparr> h_score = 60, h_rating = ''Fair'', h_summary = [], first_impression_score = 60,
           scannability_score = 60, impact_numbers_score = 60, credibility_score = 60,
           clarity_score = 60, what_recruiter_sees = [], h_recommendations = [] \<rparr>),
       jdMatch = (\<lambda>d jd.
         \<lparr> jd_score = 0, jd_rating = ''Needs Work'', jd_summary = [],
           matched_keywords = [], missing_keywords = [] \<rparr>) \<rparr>"

section \<open>Properties of the scoring modal\<close>

text \<open>The colour of a score. The modal colours a score on a ladder of four steps with the
  thresholds 85, 70 and 55, each compared by \<open>\<ge>\<close>, so a boundary value belongs to the step
  above it: \<^verbatim>\<open>text-green-600\<close> exactly when the score is at least 85,
  \<^verbatim>\<open>text-green-500\<close> exactly when it is at least 70 and below 85, \<^verbatim>\<open>text-yellow-500\<close>
  exactly when it is at least 55 and below 70, and \<^verbatim>\<open>text-red-500\<close> otherwise. The emoji
  beside the rating is chosen from the rating label alone; the four labels "Excellent",
  "Good", "Fair" and "Needs Work" get four different emoji.\<close>

theorem rating_ladder:
  "(getScoreColor s = ''text-green-600'' \<longleftrightarrow> 85 \<le> s) \<and>
   (getScoreColor s = ''text-green-500'' \<longleftrightarrow> 70 \<le> s \<and> s < 85) \<and>
   (getScoreColor s = ''text-yellow-500'' \<longleftrightarrow> 55 \<le> s \<and> s < 70) \<and>
   (getScoreColor s = ''text-red-500'' \<longleftrightarrow> s < 55) \<and>
   getScoreColor 85 = ''text-green-600'' \<and>
   getScoreColor 70 = ''text-green-500'' \<and>
   getScoreColor 55 = ''text-yellow-500'' \<and>
   getRatingEmoji ''Excellent'' = GlowingStar \<and>
   getRatingEmoji ''Good'' = CheckMark \<and>
   getRatingEmoji ''Fair'' = Warning \<and>
   getRatingEmoji ''Needs Work'' = CrossMark"
proof -
  have ladder: "(getScoreColor s = ''text-green-600'' \<longleftrightarrow> 85 \<le> s) \<and>
      (getScoreColor s = ''text-green-500'' \<longleftrightarrow> 70 \<le> s \<and> s < 85) \<and>
      (getScoreColor s = ''text-yellow-500'' \<longleftrightarrow> 55 \<le> s \<and> s < 70) \<and>
      (getScoreColor s = ''text-red-500'' \<longleftrightarrow> s < 55)"
    by (simp add: getScoreColor_def)
  have bounds: "getScoreColor 85 = ''text-green-600'' \<and> getScoreColor 70 = ''text-green-500'' \<and>
      getScoreColor 55 = ''text-yellow-500''"
    by (simp add: getScoreColor_def)
  have e1: "getRatingEmoji ''Excellent'' = GlowingStar"
    by (simp add: getRatingEmoji_def toLowerCase_def toLowerCase_char_def upper_case_letters_def lower_case_letters_def)
  have e2: "getRatingEmoji ''Good'' = CheckMark"
    by (simp add: getRatingEmoji_def toLowerCase_def toLowerCase_char_def upper_case_letters_def lower_case_letters_def)
  have e3: "getRatingEmoji ''Fair'' = Warning"
    by (simp add: getRatingEmoji_def toLowerCase_def toLowerCase_char_def upper_case_letters_def lower_case_letters_def)
  have e4: "getRatingEmoji ''Needs Work'' = CrossMark"
    by (simp add: getRatingEmoji_def toLowerCase_def toLowerCase_char_def upper_case_letters_def lower_case_letters_def)
  from ladder bounds e1 e2 e3 e4 show ?thesis by blast
qed

theorem rating_ladder_witness:
  "getScoreColor 84 = ''text-green-500'' \<and> getScoreColor 85 = ''text-green-600'' \<and>
   getScoreColor 69 = ''text-yellow-500'' \<and> getScoreColor 54 = ''text-red-500'' \<and>
   getScoreColor 100 = ''text-green-600'' \<and> getScoreColor 0 = ''text-red-500''"
  using rating_ladder [of 84] rating_ladder [of 69] rating_ladder [of 54]
    rating_ladder [of 100] rating_ladder [of 0]
  by simp

section \<open>Facts about the string operations\<close>

lemma dropWhile_fix: "xs = [] \<or> \<not> P (hd xs) \<Longrightarrow> dropWhile P xs = xs"
  by (cases xs) auto

lemma trimStart_head: "trimStart s = [] \<or> \<not> is_space (hd (trimStart s))"
  unfolding trimStart_def using hd_dropWhile [of is_space s] by blast

lemma trimEnd_prefix: "trimEnd t @ rev (takeWhile is_space (rev t)) = t"
proof -
  have "trimEnd t @ rev (takeWhile is_space (rev t)) =
      rev (takeWhile is_space (rev t) @ dropWhile is_space (rev t))"
    by (simp only: trimEnd_def rev_append)
  also have "\<dots> = rev (rev t)" by (simp only: takeWhile_dropWhile_id)
  finally show ?thesis by simp
qed

lemma trim_head: "trim s = [] \<or> \<not> is_space (hd (trim s))"
proof (cases "trim s = []")
  case True
  then show ?thesis by simp
next
  case False
  define t where "t = trimStart s"
  have ne: "trimEnd t \<noteq> []" using False by (simp add: trim_def t_def)
  have "hd (trimEnd t @ rev (takeWhile is_space (rev t))) = hd (trimEnd t)"
    using ne by simp
  then have hd_eq: "hd t = hd (trimEnd t)" by (simp only: trimEnd_prefix)
  have "t \<noteq> []" using ne by (auto simp: trimEnd_def)
  then have "\<not> is_space (hd t)" using trimStart_head [of s] by (simp add: t_def)
  then show ?thesis using hd_eq by (simp add: trim_def t_def)
qed

lemma trim_last: "trim s = [] \<or> \<not> is_space (last (trim s))"
proof (cases "trim s = []")
  case True
  then show ?thesis by simp
next
  case False
  define u where "u = dropWhile is_space (rev (trimStart s))"
  have tu: "trim s = rev u" by (simp add: trim_def trimEnd_def u_def)
  with False have ne: "u \<noteq> []" by simp
  then have "\<not> is_space (hd u)" unfolding u_def by (rule hd_dropWhile)
  moreover have "last (rev u) = hd u" using ne by (simp add: last_rev)
  ultimately show ?thesis by (simp add: tu)
qed

lemma trim_fix:
  assumes "s = [] \<or> \<not> is_space (hd s)" and "s = [] \<or> \<not> is_space (last s)"
  shows "trim s = s"
proof -
  have a: "trimStart s = s" unfolding trimStart_def using assms(1) by (rule dropWhile_fix)
  have "rev s = [] \<or> \<not> is_space (hd (rev s))" using assms(2) by (auto simp: hd_rev)
  then have "dropWhile is_space (rev s) = rev s" by (rule dropWhile_fix)
  then show ?thesis by (simp add: trim_def a trimEnd_def)
qed

lemma trim_idem: "trim (trim s) = trim s"
  using trim_head [of s] trim_last [of s] by (rule trim_fix)

lemma countWords_blank: "trim s = [] \<Longrightarrow> countWords s = 0"
  by (simp add: countWords_def split_ws.simps)




lemma words_text_head: "\<exists>t. words_text n = CHR ''a'' # t"
  by (cases n) (simp_all add: words_text_def)

lemma trimStart_words_text: "dropWhile is_space (words_text n) = words_text n"
proof -
  obtain t where "words_text n = CHR ''a'' # t" using words_text_head by blast
  then show ?thesis by (simp add: is_space_def)
qed

lemma words_text_Suc: "words_text (Suc n) = CHR ''a'' # CHR '' '' # words_text n"
  by (simp add: words_text_def)

lemma split_ws_words_text: "split_ws (words_text n) = replicate (Suc n) ''a''"
proof (induction n)
  case 0
  show ?case by (simp add: words_text_def split_ws.simps is_space_def)
next
  case (Suc n)
  have "split_ws (words_text (Suc n)) = ''a'' # split_ws (dropWhile is_space (words_text n))"
    by (subst split_ws.simps) (simp add: words_text_Suc is_space_def)
  then show ?case by (simp add: trimStart_words_text Suc.IH)
qed

lemma trim_words_text: "trim (words_text n) = words_text n"
proof (rule trim_fix)
  obtain t where "words_text n = CHR ''a'' # t" using words_text_head by blast
  then show "words_text n = [] \<or> \<not> is_space (hd (words_text n))" by (simp add: is_space_def)
  show "words_text n = [] \<or> \<not> is_space (last (words_text n))"
    by (simp add: words_text_def is_space_def)
qed

lemma countWords_words_text: "countWords (words_text n) = Suc n"
  by (simp add: countWords_def trim_words_text split_ws_words_text)

lemma words_text_small: "words_text 1 = ''a a''"
  by (simp add: words_text_def)

section \<open>Facts about the page\<close>

lemma toast_show_fields [simp]:
  "canUndo (toast_show t p) = canUndo p"
  "canRedo (toast_show t p) = canRedo p"
  "requests (toast_show t p) = requests p"
  "jobDescription (toast_show t p) = jobDescription p"
  "toasts (toast_show t p) = toasts p @ [t]"
  by (simp_all add: toast_show_def)

lemma request_fields [simp]:
  "canUndo (request c p) = canUndo p"
  "canRedo (request c p) = canRedo p"
  "requests (request c p) = requests p @ [c]"
  "jobDescription (request c p) = jobDescription p"
  "toasts (request c p) = toasts p"
  by (simp_all add: request_def)

lemma warnings_flags:
  "canUndo (foldl (\<lambda>q w. toast_show (ToastWarning w) q) p ws) = canUndo p \<and>
   canRedo (foldl (\<lambda>q w. toast_show (ToastWarning w) q) p ws) = canRedo p"
  by (induction ws arbitrary: p) simp_all

lemma compileAndUpdate_flags:
  "canUndo (compileAndUpdate sid p c b) = canUndo p \<and>
   canRedo (compileAndUpdate sid p c b) = canRedo p"
  by (simp add: compileAndUpdate_def compile_failed_def Let_def split: sum.splits)

lemma loadSections_flags:
  "canUndo (loadSections sid p r) = canUndo p \<and> canRedo (loadSections sid p r) = canRedo p"
  by (simp add: loadSections_def Let_def split: sum.splits option.splits)

lemma loadJobDescription_flags:
  "canUndo (loadJobDescription sid p r) = canUndo p \<and>
   canRedo (loadJobDescription sid p r) = canRedo p"
  by (simp add: loadJobDescription_def Let_def split: sum.splits)

lemma initSession_flags:
  "canUndo (initSession p r c b s j) = canUndo p \<and> canRedo (initSession p r c b s j) = canRedo p"
  by (simp add: initSession_def Let_def compileAndUpdate_flags loadSections_flags
      loadJobDescription_flags split: sum.splits)

lemma handleSaveJobDescription_flags:
  "canUndo (handleSaveJobDescription p r v) = canUndo p \<and>
   canRedo (handleSaveJobDescription p r v) = canRedo p"
  by (simp add: handleSaveJobDescription_def Let_def split: sum.splits)

lemma handleClearJobDescription_flags:
  "canUndo (handleClearJobDescription p r) = canUndo p \<and>
   canRedo (handleClearJobDescription p r) = canRedo p"
  by (simp add: handleClearJobDescription_def Let_def split: sum.splits)

lemma handleCheckScores_flags:
  "canUndo (handleCheckScores p j s) = canUndo p \<and> canRedo (handleCheckScores p j s) = canRedo p"
  by (simp add: handleCheckScores_def Let_def split: sum.splits)

lemma handleDownload_flags:
  "canUndo (handleDownload p b) = canUndo p \<and> canRedo (handleDownload p b) = canRedo p"
  by (simp add: handleDownload_def Let_def split: sum.splits)

lemma handleDownloadLaTeX_flags:
  "canUndo (handleDownloadLaTeX p b) = canUndo p \<and> canRedo (handleDownloadLaTeX p b) = canRedo p"
  by (simp add: handleDownloadLaTeX_def Let_def split: sum.splits)

lemma handleFileUpload_flags:
  "canUndo (handleFileUpload p f r s c b) = canUndo p \<and>
   canRedo (handleFileUpload p f r s c b) = canRedo p"
  by (simp add: handleFileUpload_def Let_def compileAndUpdate_flags loadSections_flags
      warnings_flags split: sum.splits)

lemma loadSessionState_flags:
  "canUndo (loadSessionState p r) = canUndo p \<and> canRedo (loadSessionState p r) = canRedo p"
  by (simp add: loadSessionState_def)

lemma click_flags:
  "canUndo (click_undo p) = canUndo p \<and> canRedo (click_undo p) = canRedo p \<and>
   canUndo (click_redo p) = canUndo p \<and> canRedo (click_redo p) = canRedo p"
  by (simp add: click_undo_def click_redo_def onUndo_def onRedo_def split: option.splits)

lemma step_flags: "canUndo (step p ev) = canUndo p \<and> canRedo (step p ev) = canRedo p"
  by (cases ev)
    (simp_all add: initSession_flags loadSessionState_flags handleSaveJobDescription_flags
      handleClearJobDescription_flags handleCheckScores_flags handleDownload_flags
      handleDownloadLaTeX_flags handleFileUpload_flags click_flags)

lemma run_flags: "canUndo (run p evs) = canUndo p \<and> canRedo (run p evs) = canRedo p"
  unfolding run_def by (induction evs arbitrary: p) (simp_all add: step_flags)

lemma disabled_click:
  "\<not> canUndo p \<Longrightarrow> click_undo p = p" "\<not> canRedo p \<Longrightarrow> click_redo p = p"
  by (simp_all add: click_undo_def click_redo_def Sidebar_def sidebar_of_def)

section \<open>Properties of the builder page\<close>

text \<open>C8. The undo and redo controls of the builder page change nothing: the two handlers
  the page passes to the sidebar only append a "not yet implemented" toast (no field of the
  page changes and no request is sent), and after any sequence of events from the initial
  page both \<^verbatim>\<open>canUndo\<close> and \<^verbatim>\<open>canRedo\<close> are still false, so the sidebar, whenever it is
  open, shows both buttons disabled and a click on either leaves the page as it is.\<close>

theorem undo_redo_inert:
  "onUndo p = p\<lparr>toasts := toasts p @ [ToastPlain ''Undo not yet implemented'']\<rparr> \<and>
   onRedo p = p\<lparr>toasts := toasts p @ [ToastPlain ''Redo not yet implemented'']\<rparr> \<and>
   requests (onUndo p) = requests p \<and> requests (onRedo p) = requests p \<and>
   canUndo (run initial_page evs) = False \<and>
   canRedo (run initial_page evs) = False \<and>
   (case Sidebar (sidebar_of (run initial_page evs)) of
      None \<Rightarrow> True
    | Some v \<Rightarrow> undo_disabled v \<and> redo_disabled v) \<and>
   step (run initial_page evs) UndoClick = run initial_page evs \<and>
   step (run initial_page evs) RedoClick = run initial_page evs"
proof -
  have flags: "canUndo (run initial_page evs) = False \<and> canRedo (run initial_page evs) = False"
    using run_flags [of initial_page evs] by (simp add: initial_page_def)
  have handlers:
    "onUndo p = p\<lparr>toasts := toasts p @ [ToastPlain ''Undo not yet implemented'']\<rparr> \<and>
     onRedo p = p\<lparr>toasts := toasts p @ [ToastPlain ''Redo not yet implemented'']\<rparr> \<and>
     requests (onUndo p) = requests p \<and> requests (onRedo p) = requests p"
    by (simp add: onUndo_def onRedo_def toast_show_def)
  have view: "(case Sidebar (sidebar_of (run initial_page evs)) of
      None \<Rightarrow> True
    | Some v \<Rightarrow> undo_disabled v \<and> redo_disabled v)"
    using flags by (simp add: Sidebar_def sidebar_of_def)
  have clicks: "step (run initial_page evs) UndoClick = run initial_page evs \<and>
      step (run initial_page evs) RedoClick = run initial_page evs"
    using flags by (simp add: disabled_click)
  from handlers flags view clicks show ?thesis by blast
qed

theorem undo_redo_inert_witness:
  "Sidebar (sidebar_of (run initial_page [OpenSidebar, UndoClick, RedoClick])) =
     Some \<lparr>undo_disabled = True, redo_disabled = True, version_line = None\<rparr> \<and>
   toasts (run initial_page [OpenSidebar, UndoClick, RedoClick]) = [] \<and>
   canUndo (run initial_page [OpenSidebar, UndoClick, RedoClick]) = False"
  using undo_redo_inert [of initial_page "[OpenSidebar, UndoClick, RedoClick]"]
  by (simp add: run_def initial_page_def click_undo_def click_redo_def Sidebar_def sidebar_of_def)

text \<open>C9. Saving a job description whose trimmed input is empty (an empty input, or one of
  white space only, the no-break space included) shows an error and does nothing else: the
  page is the old page with one error toast added, so no request is sent (the API's
  setJobDescription is never called) and the stored job description is unchanged. The toast
  is "Job description cannot be empty", or "Session not initialized" when there is no
  session yet.\<close>

theorem save_blank_rejected:
  assumes "trim (jobDescriptionInput p) = []"
  shows "handleSaveJobDescription p result verify =
           toast_show
             (ToastError (if truthy (sessionId p) then ''Job description cannot be empty''
                          else ''Session not initialized''))
             p \<and>
         requests (handleSaveJobDescription p result verify) = requests p \<and>
         jobDescription (handleSaveJobDescription p result verify) = jobDescription p"
proof -
  have wc: "countWords (jobDescriptionInput p) = 0" using assms by (rule countWords_blank)
  have eq: "handleSaveJobDescription p result verify =
           toast_show
             (ToastError (if truthy (sessionId p) then ''Job description cannot be empty''
                          else ''Session not initialized''))
             p"
    by (simp add: handleSaveJobDescription_def wc assms)
  show ?thesis unfolding eq by simp
qed

theorem save_blank_rejected_witness:
  "trim [CHR '' '', CHR 0xA0, CHR 0x09] = [] \<and>
   handleSaveJobDescription
      (initial_page\<lparr>sessionId := Some ''s1'', jobDescription := ''old'',
         jobDescriptionInput := [CHR '' '', CHR 0xA0, CHR 0x09]\<rparr>)
      (Inr ()) (Inr \<lparr>job_description = Some [CHR '' '', CHR 0xA0, CHR 0x09]\<rparr>) =
     initial_page\<lparr>sessionId := Some ''s1'', jobDescription := ''old'',
       jobDescriptionInput := [CHR '' '', CHR 0xA0, CHR 0x09],
       toasts := [ToastError ''Job description cannot be empty'']\<rparr> \<and>
   requests (handleSaveJobDescription
      (initial_page\<lparr>sessionId := Some ''s1'', jobDescription := ''old'',
         jobDescriptionInput := [CHR '' '', CHR 0xA0, CHR 0x09]\<rparr>)
      (Inr ()) (Inr \<lparr>job_description = Some [CHR '' '', CHR 0xA0, CHR 0x09]\<rparr>)) = []"
proof -
  have t: "trim [CHR '' '', CHR 0xA0, CHR 0x09] = []"
    by (simp add: trim_def trimStart_def trimEnd_def is_space_def)
  show ?thesis
    using save_blank_rejected
      [of "initial_page\<lparr>sessionId := Some ''s1'', jobDescription := ''old'',
            jobDescriptionInput := [CHR '' '', CHR 0xA0, CHR 0x09]\<rparr>"
          "Inr ()" "Inr \<lparr>job_description = Some [CHR '' '', CHR 0xA0, CHR 0x09]\<rparr>"] t
    by (simp add: initial_page_def truthy_def toast_show_def)
qed




section \<open>Properties of the score results and their display\<close>

text \<open>C10. Whatever the number of keywords in a JDMatch result, the modal shows the first
  15 matched keywords and the first 10 missing keywords at most: the chips of the matched
  block are the first 15 entries of \<^verbatim>\<open>matched_keywords\<close>, those of the missing block the
  first 10 entries of \<^verbatim>\<open>missing_keywords\<close>.\<close>

theorem jd_keywords_capped:
  assumes "renderATSJD scs = Some v"
  shows "\<exists>sc atsJd. scs = Some sc \<and> ats_jd sc = Some atsJd \<and>
           chips (jv_matched v) = take 15 (matched_keywords atsJd) \<and>
           chips (jv_missing v) = take 10 (missing_keywords atsJd) \<and>
           length (chips (jv_matched v)) \<le> 15 \<and>
           length (chips (jv_missing v)) \<le> 10"
proof -
  from assms obtain sc where sc: "scs = Some sc"
    by (cases scs) (simp_all add: renderATSJD_def)
  from assms sc obtain atsJd where jd: "ats_jd sc = Some atsJd"
    by (cases "ats_jd sc") (simp_all add: renderATSJD_def)
  have m: "chips (jv_matched v) = take 15 (matched_keywords atsJd)"
    using assms sc jd by (auto simp: renderATSJD_def chips_def slice0_def)
  have n: "chips (jv_missing v) = take 10 (missing_keywords atsJd)"
    using assms sc jd by (auto simp: renderATSJD_def chips_def slice0_def)
  show ?thesis using sc jd m n by simp
qed

text \<open>A result with 17 matched and 12 missing keywords, for the example.\<close>

theorem jd_keywords_capped_witness:
  "renderATSJD (Some \<lparr>ats_universal = None, hbps = None,
      ats_jd = Some \<lparr>jd_score = 50, jd_rating = ''Fair'', jd_summary = ''Half'',
        matched_keywords = replicate 17 ''python'',
        missing_keywords = replicate 12 ''aws''\<rparr>\<rparr>) =
    Some \<lparr>jv_score = 50, jv_color = ''text-red-500'', jv_emoji = Warning, jv_rating = ''Fair'',
      jv_summary = ''Half'', jv_matched = Some (replicate 15 ''python''),
      jv_missing = Some (replicate 10 ''aws'')\<rparr> \<and>
   length (chips (Some (replicate 15 ''python''))) \<le> 15 \<and>
   length (chips (Some (replicate 10 ''aws''))) \<le> 10"
proof -
  let ?scs = "Some \<lparr>ats_universal = None, hbps = None,
      ats_jd = Some \<lparr>jd_score = 50, jd_rating = ''Fair'', jd_summary = ''Half'',
        matched_keywords = replicate 17 ''python'',
        missing_keywords = replicate 12 ''aws''\<rparr>\<rparr>"
  let ?v = "\<lparr>jv_score = 50, jv_color = ''text-red-500'', jv_emoji = Warning, jv_rating = ''Fair'',
      jv_summary = ''Half'', jv_matched = Some (replicate 15 ''python''),
      jv_missing = Some (replicate 10 ''aws'')\<rparr>"
  have r: "renderATSJD ?scs = Some ?v"
    by (simp add: renderATSJD_def getScoreColor_def getRatingEmoji_def toLowerCase_def
        toLowerCase_char_def upper_case_letters_def lower_case_letters_def slice0_def)
  show ?thesis using r jd_keywords_capped [OF r] by simp
qed




section \<open>Properties of the engine as the specification describes it\<close>

text \<open>C1. The result of \<^verbatim>\<open>score()\<close> has the JDMatch member (\<^verbatim>\<open>ats_jd\<close>) exactly when the
  session has a job description: without one the member is absent, not a result with a
  zero score. So the modal has the tab "ATS (with JD)" and renders the JDMatch panel
  exactly when the scored session had a job description; after the job description is
  cleared the member is absent, and after it is set successfully the member is the
  JDMatch scorer's result for it.\<close>

theorem jd_match_present_iff:
  "(ats_jd (score sc s) = None \<longleftrightarrow> s_jobDescription s = None) \<and>
   ((''ats_jd'', ''ATS (with JD)'') \<in> set (tabs (Some (score sc s))) \<longleftrightarrow>
      s_jobDescription s \<noteq> None) \<and>
   (renderATSJD (Some (score sc s)) = None \<longleftrightarrow> s_jobDescription s = None) \<and>
   ats_jd (score sc (clearJobDescription s)) = None \<and>
   (\<forall>s'. setJobDescription s t = Inr s' \<longrightarrow>
      ats_jd (score sc s') = Some (jdMatch sc (s_document s) t))"
proof (intro conjI allI impI)
  show "ats_jd (score sc s) = None \<longleftrightarrow> s_jobDescription s = None"
    by (simp add: score_def split: option.splits)
  show "(''ats_jd'', ''ATS (with JD)'') \<in> set (tabs (Some (score sc s))) \<longleftrightarrow>
      s_jobDescription s \<noteq> None"
    by (simp add: score_def tabs_def split: option.splits)
  show "renderATSJD (Some (score sc s)) = None \<longleftrightarrow> s_jobDescription s = None"
    by (simp add: score_def renderATSJD_def split: option.splits)
  show "ats_jd (score sc (clearJobDescription s)) = None"
    by (simp add: score_def clearJobDescription_def)
next
  fix s'
  assume "setJobDescription s t = Inr s'"
  then have "s' = s\<lparr>s_jobDescription := Some t\<rparr>"
    by (auto simp: setJobDescription_def split: if_splits)
  then show "ats_jd (score sc s') = Some (jdMatch sc (s_document s) t)"
    by (simp add: score_def)
qed

theorem jd_match_present_iff_witness:
  "countWords ''a a'' \<le> 1000 \<and>
   ats_jd (score sample_scorers \<lparr>s_document = ''Python'', s_jobDescription = None\<rparr>) = None \<and>
   setJobDescription \<lparr>s_document = ''Python'', s_jobDescription = None\<rparr> ''a a'' =
     Inr \<lparr>s_document = ''Python'', s_jobDescription = Some ''a a''\<rparr> \<and>
   ats_jd (score sample_scorers \<lparr>s_document = ''Python'', s_jobDescription = Some ''a a''\<rparr>) =
     Some (jdMatch sample_scorers ''Python'' ''a a'') \<and>
   tabs (Some (score sample_scorers \<lparr>s_document = ''Python'', s_jobDescription = None\<rparr>)) =
     [(''ats'', ''ATS Universal''), (''hbps'', ''HBPS'')]"
proof -
  have wc: "countWords ''a a'' = 2"
    using countWords_words_text [of 1] unfolding words_text_small by simp
  have set: "setJobDescription \<lparr>s_document = ''Python'', s_jobDescription = None\<rparr> ''a a'' =
      Inr \<lparr>s_document = ''Python'', s_jobDescription = Some ''a a''\<rparr>"
    by (simp add: setJobDescription_def wc)
  show ?thesis
    using jd_match_present_iff
      [of sample_scorers "\<lparr>s_document = ''Python'', s_jobDescription = None\<rparr>" "''a a''"]
      set
    by (simp add: wc tabs_def score_def)
qed

text \<open>C6. \<^verbatim>\<open>record(newDocument)\<close> makes the new document current, leaves the old current
  document on top of \<open>past\<close> (all of the old \<open>past\<close> stays below it while the capacity is
  not reached) and empties \<open>future\<close>. So \<^verbatim>\<open>canRedo()\<close> is false after every \<^verbatim>\<open>record\<close>, and in
  particular after an \<^verbatim>\<open>undo\<close> (which makes \<^verbatim>\<open>canRedo()\<close> true) followed by
  \<^verbatim>\<open>record(X)\<close>.\<close>

theorem record_clears_future:
  "current (vh_record N h d) = d \<and>
   future (vh_record N h d) = [] \<and>
   \<not> vh_canRedo (vh_record N h d) \<and>
   (0 < N \<longrightarrow> past (vh_record N h d) = current h # take (N - 1) (past h)) \<and>
   (length (past h) < N \<longrightarrow> past (vh_record N h d) = current h # past h) \<and>
   (\<forall>h' restored. vh_undo h = Inr (h', restored) \<longrightarrow>
      vh_canRedo h' \<and> \<not> vh_canRedo (vh_record N h' X) \<and>
      current (vh_record N h' X) = X)"
proof (intro conjI allI impI)
  show "current (vh_record N h d) = d" "future (vh_record N h d) = []"
    "\<not> vh_canRedo (vh_record N h d)"
    by (simp_all add: vh_record_def vh_canRedo_def)
next
  assume "0 < N"
  then show "past (vh_record N h d) = current h # take (N - 1) (past h)"
    by (cases N) (simp_all add: vh_record_def)
next
  assume "length (past h) < N"
  then show "past (vh_record N h d) = current h # past h"
    by (cases N) (simp_all add: vh_record_def)
next
  fix h' restored
  assume u: "vh_undo h = Inr (h', restored)"
  then show "vh_canRedo h'"
    by (auto simp: vh_undo_def vh_canRedo_def split: list.splits)
  show "\<not> vh_canRedo (vh_record N h' X)" "current (vh_record N h' X) = X"
    by (simp_all add: vh_record_def vh_canRedo_def)
qed

theorem record_clears_future_witness:
  "(0::nat) < 50 \<and>
   vh_record 50 \<lparr>past = [''A''], current = ''B'', future = [''C'']\<rparr> ''D'' =
     \<lparr>past = [''B'', ''A''], current = ''D'', future = []\<rparr> \<and>
   vh_undo \<lparr>past = [''A''], current = ''B'', future = []\<rparr> =
     Inr (\<lparr>past = [], current = ''A'', future = [''B'']\<rparr>, ''A'') \<and>
   vh_canRedo \<lparr>past = [], current = ''A'', future = [''B'']\<rparr> \<and>
   vh_canRedo (vh_record 50 \<lparr>past = [], current = ''A'', future = [''B'']\<rparr> ''X'') = False"
proof -
  have u: "vh_undo \<lparr>past = [''A''], current = ''B'', future = []\<rparr> =
      Inr (\<lparr>past = [], current = ''A'', future = [''B'']\<rparr>, ''A'')"
    by (simp add: vh_undo_def)
  show ?thesis
    using record_clears_future
      [of 50 "\<lparr>past = [''A''], current = ''B'', future = [''C'']\<rparr>" "''D''" "''X''"]
      record_clears_future
      [of 50 "\<lparr>past = [''A''], current = ''B'', future = []\<rparr>" "''D''" "''X''"]
      u
    by (simp add: vh_record_def)
qed

text \<open>Facts about lines and headings.\<close>

lemma split_lines_nonempty: "split_lines s \<noteq> []"
  by (induction s) (auto split: list.splits)

lemma join_Cons_char: "join sep ((c # l) # ls) = c # join sep (l # ls)"
  by (cases ls) simp_all

lemma join_split_lines: "join_lines (split_lines s) = s"
proof (induction s)
  case Nil
  show ?case by (simp add: join_lines_def)
next
  case (Cons c s)
  obtain l ls where sl: "split_lines s = l # ls"
    using split_lines_nonempty [of s] by (cases "split_lines s") auto
  with Cons show ?case by (simp add: join_lines_def join_Cons_char)
qed

lemma heading_indices_sorted: "sorted_wrt (<) (heading_indices heading ls)"
  unfolding heading_indices_def by (rule sorted_wrt_filter) simp

lemma no_headings: "(\<forall>l \<in> set ls. heading l = None) \<Longrightarrow> heading_indices heading ls = []"
  by (simp add: heading_indices_def filter_empty_conv)

text \<open>C7. \<^verbatim>\<open>parse\<close> returns for every source a sequence of at least one section, in document
  order (each section starts on a later line than the one before it); there is no source on
  which it fails. When no line of the source is a structural heading, the result is exactly
  one section named "Full Document" whose content is the entire source and whose range is
  all the lines of the source.\<close>

theorem parse_total:
  "parse heading source \<noteq> [] \<and>
   sorted_wrt (<) (map ps_start (parse heading source)) \<and>
   ((\<forall>l \<in> set (split_lines source). heading l = None) \<longrightarrow>
      parse heading source =
        [\<lparr> ps_name = ''Full Document'', ps_content = source,
           ps_start = 0, ps_end = length (split_lines source) \<rparr>] \<and>
      join_lines (split_lines source) = source)"
proof (intro conjI impI)
  show "parse heading source \<noteq> []"
    by (simp add: parse_def Let_def)
  have starts: "map ps_start (map (section_at heading ls) js) = js" for ls js
    by (induction js) (simp_all add: section_at_def)
  show "sorted_wrt (<) (map ps_start (parse heading source))"
    by (simp add: parse_def Let_def starts heading_indices_sorted del: map_map)
next
  assume "\<forall>l \<in> set (split_lines source). heading l = None"
  then have "heading_indices heading (split_lines source) = []" by (rule no_headings)
  then show "parse heading source =
      [\<lparr> ps_name = ''Full Document'', ps_content = source,
         ps_start = 0, ps_end = length (split_lines source) \<rparr>]"
    by (simp add: parse_def Let_def)
  show "join_lines (split_lines source) = source" by (rule join_split_lines)
qed

lemma sample_lines:
  "split_lines (''John Doe'' @ [CHR 0x0A] @ ''Engineer'') = [''John Doe'', ''Engineer'']"
  by simp

theorem parse_total_witness:
  "parse latex_heading (''John Doe'' @ [CHR 0x0A] @ ''Engineer'') =
     [\<lparr> ps_name = ''Full Document'', ps_content = ''John Doe'' @ [CHR 0x0A] @ ''Engineer'',
        ps_start = 0, ps_end = 2 \<rparr>]"
proof -
  have none: "\<forall>l \<in> set (split_lines (''John Doe'' @ [CHR 0x0A] @ ''Engineer'')).
      latex_heading l = None"
    unfolding sample_lines by (simp add: latex_heading_def)
  show ?thesis
    using parse_total [of latex_heading "''John Doe'' @ [CHR 0x0A] @ ''Engineer''"] none
    by (simp only: sample_lines) simp
qed

text \<open>The parser on a document with two headings: two sections, in document order, each
  from its heading to the line before the next.\<close>

lemma parse_two_sections:
  "parse latex_heading
     ([CHR 0x5C] @ ''section{Summary}'' @ [CHR 0x0A] @ ''Hi'' @ [CHR 0x0A] @
      [CHR 0x5C] @ ''section{ Skills }'' @ [CHR 0x0A] @ ''Python'') =
   [\<lparr> ps_name = ''Summary'',
       ps_content = [CHR 0x5C] @ ''section{Summary}'' @ [CHR 0x0A] @ ''Hi'',
       ps_start = 0, ps_end = 2 \<rparr>,
    \<lparr> ps_name = ''Skills'',
       ps_content = [CHR 0x5C] @ ''section{ Skills }'' @ [CHR 0x0A] @ ''Python'',
       ps_start = 2, ps_end = 4 \<rparr>]"
  by code_simp

section \<open>Further properties of the page\<close>

text \<open>With a session, checking the scores always ends with the loading flag reset (the
  \<^verbatim>\<open>finally\<close> block) and the modal open, and the stored scores change only when both
  requests succeed, to what the scoring request returned.\<close>

theorem check_scores_finally:
  assumes "truthy (sessionId p)"
  shows "isLoadingScores (handleCheckScores p jdCheck scoreData) = False \<and>
         isScoreModalOpen (handleCheckScores p jdCheck scoreData) = True \<and>
         scores (handleCheckScores p jdCheck scoreData) =
           (case jdCheck of
              Inl e \<Rightarrow> scores p
            | Inr r \<Rightarrow> (case scoreData of Inl e \<Rightarrow> scores p | Inr sd \<Rightarrow> Some sd))"
  using assms
  by (simp add: handleCheckScores_def Let_def toast_show_def request_def split: sum.splits)

theorem check_scores_finally_witness:
  "truthy (Some ''s1'') \<and>
   isLoadingScores (handleCheckScores (initial_page\<lparr>sessionId := Some ''s1''\<rparr>)
      (Inr \<lparr>job_description = None\<rparr>) (Inl \<lparr>err_detail = None, err_message = None\<rparr>)) = False \<and>
   scores (handleCheckScores (initial_page\<lparr>sessionId := Some ''s1''\<rparr>)
      (Inr \<lparr>job_description = None\<rparr>) (Inl \<lparr>err_detail = None, err_message = None\<rparr>)) = None"
proof -
  have a: "truthy (sessionId (initial_page\<lparr>sessionId := Some ''s1''\<rparr>))"
    by (simp add: truthy_def)
  show ?thesis
    using check_scores_finally [OF a, of "Inr \<lparr>job_description = None\<rparr>"
        "Inl \<lparr>err_detail = None, err_message = None\<rparr>"]
    by (simp add: truthy_def initial_page_def)
qed

text \<open>The page offers a button for the first eight sections only: a click on a ninth or a
  later section button cannot happen, and the chat message is prefilled with the name of
  one of the first eight.\<close>

theorem section_buttons_first_eight:
  "(8 \<le> i \<longrightarrow> step p (SectionClick i) = p) \<and>
   (i < 8 \<and> i < length (sections p) \<longrightarrow>
      chatMessage (step p (SectionClick i)) = ''@'' @ name (sections p ! i) @ '': '')"
  by (simp add: slice0_def)

theorem section_buttons_first_eight_witness:
  "step (initial_page\<lparr>sections := replicate 9
      \<lparr>name = ''Skills'', content = [], type' = None, start_line = None, end_line = None,
        preview = None\<rparr>\<rparr>) (SectionClick 8) =
    initial_page\<lparr>sections := replicate 9
      \<lparr>name = ''Skills'', content = [], type' = None, start_line = None, end_line = None,
        preview = None\<rparr>\<rparr> \<and>
   chatMessage (step (initial_page\<lparr>sections := replicate 9
      \<lparr>name = ''Skills'', content = [], type' = None, start_line = None, end_line = None,
        preview = None\<rparr>\<rparr>) (SectionClick 7)) = ''@Skills: ''"
  using section_buttons_first_eight
    [of 8 "initial_page\<lparr>sections := replicate 9
      \<lparr>name = ''Skills'', content = [], type' = None, start_line = None, end_line = None,
        preview = None\<rparr>\<rparr>"]
    section_buttons_first_eight
    [of 7 "initial_page\<lparr>sections := replicate 9
      \<lparr>name = ''Skills'', content = [], type' = None, start_line = None, end_line = None,
        preview = None\<rparr>\<rparr>"]
  by (simp add: initial_page_def numeral_eq_Suc)

text \<open>Compiling always ends with the compiling flag reset (the \<^verbatim>\<open>finally\<close> block), and the
  preview changes only when the compile call reports success and the PDF is fetched, to
  the object URL of the fetched PDF.\<close>

theorem compile_finally:
  "isCompiling (compileAndUpdate sid p compileResult pdfBlob) = False \<and>
   pdfUrl (compileAndUpdate sid p compileResult pdfBlob) =
     (case compileResult of
        Inl e \<Rightarrow> pdfUrl p
      | Inr cr \<Rightarrow>
          if cr_success cr
          then (case pdfBlob of Inl e \<Rightarrow> pdfUrl p | Inr blob \<Rightarrow> Some (createObjectURL blob))
          else pdfUrl p)"
  by (simp add: compileAndUpdate_def compile_failed_def Let_def toast_show_def request_def
      split: sum.splits)

theorem compile_finally_witness:
  "isCompiling (compileAndUpdate ''s1'' (initial_page\<lparr>isCompiling := True\<rparr>)
      (Inr \<lparr>cr_success = False, cr_error = None\<rparr>) (Inr ''pdf'')) = False \<and>
   toasts (compileAndUpdate ''s1'' initial_page
      (Inr \<lparr>cr_success = False, cr_error = None\<rparr>) (Inr ''pdf'')) =
     [ToastError ''Compilation failed: Compilation failed''] \<and>
   pdfUrl (compileAndUpdate ''s1'' initial_page
      (Inr \<lparr>cr_success = True, cr_error = None\<rparr>) (Inr ''pdf'')) = Some ''blob:pdf''"
  using compile_finally [of "''s1''" "initial_page\<lparr>isCompiling := True\<rparr>"
      "Inr \<lparr>cr_success = False, cr_error = None\<rparr>" "Inr ''pdf''"]
    compile_finally [of "''s1''" initial_page
      "Inr \<lparr>cr_success = True, cr_error = None\<rparr>" "Inr ''pdf''"]
  by (simp add: compileAndUpdate_def compile_failed_def error_text_def truthy_def
      toast_show_def request_def initial_page_def createObjectURL_def)

text \<open>With a session, the page rejects a job description of more than 1000 words before it
  sends anything: the page is the old page with the one error toast added.\<close>

theorem save_rejects_long:
  assumes "truthy (sessionId p)" and "1000 < countWords (jobDescriptionInput p)"
  shows "handleSaveJobDescription p result verify =
           p\<lparr>toasts := toasts p @ [ToastError ''Job description must be 1000 words or less'']\<rparr>"
  using assms by (simp add: handleSaveJobDescription_def toast_show_def)

theorem save_rejects_long_witness:
  "truthy (Some ''s1'') \<and> 1000 < countWords (words_text 1000) \<and>
   requests (handleSaveJobDescription
      (initial_page\<lparr>sessionId := Some ''s1'', jobDescriptionInput := words_text 1000\<rparr>)
      (Inr ()) (Inr \<lparr>job_description = Some (words_text 1000)\<rparr>)) = []"
proof -
  have a: "truthy (sessionId (initial_page\<lparr>sessionId := Some ''s1'',
      jobDescriptionInput := words_text 1000\<rparr>))"
    by (simp add: truthy_def)
  have b: "1000 < countWords (jobDescriptionInput (initial_page\<lparr>sessionId := Some ''s1'',
      jobDescriptionInput := words_text 1000\<rparr>))"
    by (simp add: countWords_words_text)
  show ?thesis
    using save_rejects_long [OF a b, of "Inr ()" "Inr \<lparr>job_description = Some (words_text 1000)\<rparr>"]
    by (simp add: truthy_def countWords_words_text initial_page_def)
qed

end
